theory Spec2Isabelle
  imports Main
begin

section \<open>Data model\<close>

text \<open>
  The task planner's home screen (\<^verbatim>\<open>src/app/screens/HomeScreen.tsx\<close>) keeps the task
  collection, the derived (filtered and sorted) list and the view selection in React
  state. The \<^verbatim>\<open>Task\<close> and \<^verbatim>\<open>TaskPriority\<close> types are declared in \<^verbatim>\<open>../types\<close>, and
  \<^verbatim>\<open>Category\<close> in the category selector; these declarations are not part of the
  sources at hand.
\<close>

text \<open>
  Modelled from the spec: the \<^verbatim>\<open>TaskPriority\<close> union, whose declaration is missing. The
  sort comparator of the home screen names \<^verbatim>\<open>crucial\<close>, \<^verbatim>\<open>high\<close>, \<^verbatim>\<open>normal\<close> and
  \<^verbatim>\<open>optional\<close>, as section 3 of the specification does; the priority selector
  (\<^verbatim>\<open>PrioritySelector.tsx\<close>) offers \<^verbatim>\<open>high\<close>, \<^verbatim>\<open>normal\<close> and \<^verbatim>\<open>low\<close>. The union of both
  is taken, so \<^verbatim>\<open>low\<close> is the priority outside the comparator's table.
\<close>

datatype TaskPriority = Crucial | High | Normal | Optional | Low

text \<open>
  A \<^verbatim>\<open>Date\<close> is its time value: milliseconds since the epoch, UTC. Time values are
  integers here; the range limit of ECMAScript time values (about 275000 years either
  side of 1970) is outside the model.
\<close>

type_synonym Date = int

text \<open>
  Modelled from the spec: the fields of \<^verbatim>\<open>Task\<close> (section 3 of the specification),
  whose declaration is missing. The home screen reads \<^verbatim>\<open>id\<close>, \<^verbatim>\<open>createdAt\<close>, \<^verbatim>\<open>dueDate\<close>, \<^verbatim>\<open>priority\<close>, \<^verbatim>\<open>category\<close> and
  \<^verbatim>\<open>completed\<close>. An optional field that is unset is \<open>None\<close>; a due date that is set is
  a \<^verbatim>\<open>Date\<close> object, which JavaScript counts as true whatever its time value.
\<close>

record Task =
  task_id :: string
  title :: string
  description :: "string option"
  createdAt :: Date
  dueDate :: "Date option"
  priority :: TaskPriority
  category :: "string option"
  completed :: bool

text \<open>
  Modelled from the spec: the fields of \<^verbatim>\<open>Category\<close> that the home screen reads, its
  \<^verbatim>\<open>id\<close> and its \<^verbatim>\<open>name\<close>.
\<close>

record Category =
  category_id :: string
  category_name :: string

text \<open>The date field the filter compares: \<^verbatim>\<open>'createdAt' | 'dueDate'\<close>.\<close>

datatype FilterType = ByCreatedAt | ByDueDate


section \<open>Time values (ECMAScript, local time at a constant offset)\<close>

text \<open>
  \<^verbatim>\<open>setHours\<close>, \<^verbatim>\<open>getMonth\<close>, \<^verbatim>\<open>getFullYear\<close>, \<^verbatim>\<open>getDate\<close> and the constructor
  \<^verbatim>\<open>new Date(y, m, d)\<close> work in local time. The local time zone is a parameter
  \<open>tza\<close> of the model: the offset of local time from UTC in milliseconds, the same at
  every instant (a zone without daylight-saving transitions).
\<close>

definition msPerDay :: int where
  "msPerDay = 86400000"

definition Day :: "int \<Rightarrow> int" where
  "Day t = t div msPerDay"

definition LocalTime :: "int \<Rightarrow> int \<Rightarrow> int" where
  "LocalTime tza t = t + tza"

definition UTC :: "int \<Rightarrow> int \<Rightarrow> int" where
  "UTC tza t = t - tza"

definition MakeTime :: "int \<Rightarrow> int \<Rightarrow> int \<Rightarrow> int \<Rightarrow> int" where
  "MakeTime h m s ms = h * 3600000 + m * 60000 + s * 1000 + ms"

definition MakeDate :: "int \<Rightarrow> int \<Rightarrow> int" where
  "MakeDate day time = day * msPerDay + time"

text \<open>\<^verbatim>\<open>date.setHours(h, m, s, ms)\<close>: the local day is kept, the time within it replaced.\<close>

definition setHours :: "int \<Rightarrow> Date \<Rightarrow> int \<Rightarrow> int \<Rightarrow> int \<Rightarrow> int \<Rightarrow> Date" where
  "setHours tza t h m s ms = UTC tza (MakeDate (Day (LocalTime tza t)) (MakeTime h m s ms))"


section \<open>The calendar of ECMAScript\<close>

text \<open>
  Years, months and days of the month are computed from a time value as the language
  specification defines them: \<open>DayFromYear\<close> is the day number of 1 January,
  \<open>YearFromTime\<close> the largest year whose first day is not after the time,
  \<open>MonthFromTime\<close> and \<open>DateFromTime\<close> read the day within the year.
\<close>

definition DaysInYear :: "int \<Rightarrow> int" where
  "DaysInYear y =
     (if y mod 4 \<noteq> 0 then 365 else if y mod 100 \<noteq> 0 then 366
      else if y mod 400 \<noteq> 0 then 365 else 366)"

definition DayFromYear :: "int \<Rightarrow> int" where
  "DayFromYear y = 365 * (y - 1970) + (y - 1969) div 4 - (y - 1901) div 100 + (y - 1601) div 400"

lemma div_plus1:
  fixes a n :: int
  assumes "0 < n"
  shows "(a + 1) div n = a div n + (if (a + 1) mod n = 0 then 1 else 0)"
proof (cases "a mod n + 1 = n")
  case True
  have "a + 1 = n * (a div n) + (a mod n + 1)" by simp
  with True have eq: "a + 1 = n * (a div n + 1)" by (simp add: algebra_simps)
  have "(a + 1) div n = a div n + 1"
    using assms by (subst eq) simp
  moreover have "(a + 1) mod n = 0"
    by (subst eq) simp
  ultimately show ?thesis by simp
next
  case False
  have r: "0 \<le> a mod n + 1" "a mod n + 1 < n"
    using assms False pos_mod_sign [of n a] pos_mod_bound [of n a] by linarith+
  have eq: "a + 1 = n * (a div n) + (a mod n + 1)" by simp
  have "(a + 1) div n = a div n"
    using int_div_pos_eq [OF eq r] .
  moreover have "(a + 1) mod n = a mod n + 1"
    using int_mod_pos_eq [OF eq r] .
  moreover have "a mod n + 1 \<noteq> 0"
    using assms pos_mod_sign [of n a] by linarith
  ultimately show ?thesis by simp
qed

lemma div4_step: "(y - 1968) div 4 = (y - 1969) div 4 + (if y mod 4 = 0 then 1 else 0)" for y :: int
proof -
  have "(y - 1968) mod 4 = y mod 4"
    using mod_mult_self2 [of y 4 "- 492"] by simp
  with div_plus1 [of 4 "y - 1969"] show ?thesis by simp
qed

lemma div100_step: "(y - 1900) div 100 = (y - 1901) div 100 + (if y mod 100 = 0 then 1 else 0)" for y :: int
proof -
  have "(y - 1900) mod 100 = y mod 100"
    using mod_mult_self2 [of y 100 "- 19"] by simp
  with div_plus1 [of 100 "y - 1901"] show ?thesis by simp
qed

lemma div400_step: "(y - 1600) div 400 = (y - 1601) div 400 + (if y mod 400 = 0 then 1 else 0)" for y :: int
proof -
  have "(y - 1600) mod 400 = y mod 400"
    using mod_mult_self2 [of y 400 "- 4"] by simp
  with div_plus1 [of 400 "y - 1601"] show ?thesis by simp
qed

lemma mod_100_4: "y mod 100 = 0 \<Longrightarrow> y mod 4 = 0" for y :: int
  using mod_mod_cancel [of 4 100 y] by simp

lemma mod_400_100: "y mod 400 = 0 \<Longrightarrow> y mod 100 = 0" for y :: int
  using mod_mod_cancel [of 100 400 y] by simp

lemma DayFromYear_step: "DayFromYear (y + 1) = DayFromYear y + DaysInYear y"
  unfolding DayFromYear_def DaysInYear_def
  using mod_100_4 [of y] mod_400_100 [of y]
  by (simp add: div4_step div100_step div400_step)

lemma DaysInYear_cases: "DaysInYear y = 365 \<or> DaysInYear y = 366"
  by (simp add: DaysInYear_def)

lemma DayFromYear_less: "DayFromYear y < DayFromYear (y + 1)"
  using DaysInYear_cases [of y] by (auto simp: DayFromYear_step)

text \<open>
  The search for the year of a day number walks up from a year that is not after it;
  it ends because the first days of the years increase.
\<close>

function year_search :: "int \<Rightarrow> int \<Rightarrow> int" where
  "year_search d y = (if DayFromYear (y + 1) \<le> d then year_search d (y + 1) else y)"
  by pat_completeness auto
termination
proof (relation "measure (\<lambda>(d, y). nat (d - DayFromYear y))")
  show "wf (measure (\<lambda>(d, y). nat (d - DayFromYear y)))" by simp
next
  fix d y :: int
  assume "DayFromYear (y + 1) \<le> d"
  then show "((d, y + 1), (d, y)) \<in> measure (\<lambda>(d, y). nat (d - DayFromYear y))"
    using DayFromYear_less [of y] by simp
qed

declare year_search.simps [simp del]

definition YearFromDay :: "int \<Rightarrow> int" where
  "YearFromDay d = year_search d (1970 + (if 0 \<le> d then d div 366 else d div 365))"

definition YearFromTime :: "int \<Rightarrow> int" where
  "YearFromTime t = YearFromDay (Day t)"

definition InLeapYear :: "int \<Rightarrow> int" where
  "InLeapYear t = (if DaysInYear (YearFromTime t) = 366 then 1 else 0)"

definition DayWithinYear :: "int \<Rightarrow> int" where
  "DayWithinYear t = Day t - DayFromYear (YearFromTime t)"

definition MonthFromTime :: "int \<Rightarrow> int" where
  "MonthFromTime t =
     (let d = DayWithinYear t; l = InLeapYear t
      in if d < 31 then 0 else if d < 59 + l then 1 else if d < 90 + l then 2
         else if d < 120 + l then 3 else if d < 151 + l then 4 else if d < 181 + l then 5
         else if d < 212 + l then 6 else if d < 243 + l then 7 else if d < 273 + l then 8
         else if d < 304 + l then 9 else if d < 334 + l then 10 else 11)"

definition DateFromTime :: "int \<Rightarrow> int" where
  "DateFromTime t =
     (let d = DayWithinYear t; l = InLeapYear t; m = MonthFromTime t
      in if m = 0 then d + 1 else if m = 1 then d - 30 else if m = 2 then d - 58 - l
         else if m = 3 then d - 89 - l else if m = 4 then d - 119 - l
         else if m = 5 then d - 150 - l else if m = 6 then d - 180 - l
         else if m = 7 then d - 211 - l else if m = 8 then d - 242 - l
         else if m = 9 then d - 272 - l else if m = 10 then d - 303 - l else d - 333 - l)"

text \<open>
  \<open>MakeDay\<close> asks for the day number of the first day of month \<open>mn\<close> of year \<open>ym\<close>:
  the first day of the year and the days of the months before (\<open>monthStart\<close>, with
  \<open>l\<close> the extra day of a leap year). That this day has the year \<open>ym\<close>, the month
  \<open>mn\<close> and the date 1 is proved below (\<open>civil_of_day\<close>).
\<close>

definition monthStart :: "int \<Rightarrow> int \<Rightarrow> int" where
  "monthStart mn l =
     (if mn = 0 then 0 else if mn = 1 then 31 else if mn = 2 then 59 + l
      else if mn = 3 then 90 + l else if mn = 4 then 120 + l else if mn = 5 then 151 + l
      else if mn = 6 then 181 + l else if mn = 7 then 212 + l else if mn = 8 then 243 + l
      else if mn = 9 then 273 + l else if mn = 10 then 304 + l else 334 + l)"

definition MakeDay :: "int \<Rightarrow> int \<Rightarrow> int \<Rightarrow> int" where
  "MakeDay year month date =
     (let ym = year + month div 12; mn = month mod 12
      in DayFromYear ym + monthStart mn (if DaysInYear ym = 366 then 1 else 0) + date - 1)"

text \<open>
  The number of days of a month (0 for January to 11 for December) of a year, by the
  table of the Gregorian calendar: what the claim about the date range calls the days
  in the month.
\<close>

definition daysInMonth :: "int \<Rightarrow> int \<Rightarrow> int" where
  "daysInMonth y m =
     (if m = 1 then (if DaysInYear y = 366 then 29 else 28)
      else if m = 3 \<or> m = 5 \<or> m = 8 \<or> m = 10 then 30 else 31)"


section \<open>Date objects and the date range of the slider\<close>

text \<open>
  \<^verbatim>\<open>new Date(year, month, date)\<close> is local midnight of that day; a year from 0 to 99
  stands for 1900 + year. The getters read the local time.
\<close>

definition newDate :: "int \<Rightarrow> int \<Rightarrow> int \<Rightarrow> int \<Rightarrow> Date" where
  "newDate tza year month date =
     (let yr = (if 0 \<le> year \<and> year \<le> 99 then 1900 + year else year)
      in UTC tza (MakeDate (MakeDay yr month date) (MakeTime 0 0 0 0)))"

definition getFullYear :: "int \<Rightarrow> Date \<Rightarrow> int" where
  "getFullYear tza t = YearFromTime (LocalTime tza t)"

definition getMonth :: "int \<Rightarrow> Date \<Rightarrow> int" where
  "getMonth tza t = MonthFromTime (LocalTime tza t)"

definition getDate :: "int \<Rightarrow> Date \<Rightarrow> int" where
  "getDate tza t = DateFromTime (LocalTime tza t)"

text \<open>
  \<^verbatim>\<open>for (let i = 1; i <= n; i++) dates.push(mk(i))\<close>, from the counter \<open>i\<close> on.
\<close>

function push_days :: "(int \<Rightarrow> Date) \<Rightarrow> int \<Rightarrow> int \<Rightarrow> Date list \<Rightarrow> Date list" where
  "push_days mk i n dates = (if i \<le> n then push_days mk (i + 1) n (dates @ [mk i]) else dates)"
  by pat_completeness auto
termination
  by (relation "measure (\<lambda>(mk, i, n, dates). nat (n + 1 - i))") auto

declare push_days.simps [simp del]

text \<open>
  The \<^verbatim>\<open>dateRange\<close> memo. \<^verbatim>\<open>new Date()\<close> reads the system clock: \<open>clock\<close> is the
  number of milliseconds since the epoch it shows.
\<close>

definition dateRange :: "int \<Rightarrow> nat \<Rightarrow> Date list" where
  "dateRange tza clock =
     (let now = int clock;
          currentMonth = getMonth tza now;
          currentYear = getFullYear tza now;
          lastDay = newDate tza currentYear (currentMonth + 1) 0;
          dates = push_days (\<lambda>i. newDate tza currentYear currentMonth i) 1 (getDate tza lastDay) [];
          nextMonth = (if currentMonth = 11 then 0 else currentMonth + 1);
          nextMonthYear = (if currentMonth = 11 then currentYear + 1 else currentYear)
      in push_days (\<lambda>i. newDate tza nextMonthYear nextMonth i) 1 15 dates)"


section \<open>The filter and sort pipeline\<close>

text \<open>
  \<^verbatim>\<open>Array.prototype.sort\<close> with a comparator is stable (ECMAScript 2019). For a
  comparator that is consistent, as a difference of ranks is, the result is the stable
  insertion of each element into the sorted rest.
\<close>

fun insert_by :: "('a \<Rightarrow> 'a \<Rightarrow> int) \<Rightarrow> 'a \<Rightarrow> 'a list \<Rightarrow> 'a list" where
  "insert_by cmp x [] = [x]"
| "insert_by cmp x (y # ys) =
     (if cmp x y \<le> 0 then x # y # ys else y # insert_by cmp x ys)"

fun array_sort :: "('a \<Rightarrow> 'a \<Rightarrow> int) \<Rightarrow> 'a list \<Rightarrow> 'a list" where
  "array_sort cmp [] = []"
| "array_sort cmp (x # xs) = insert_by cmp x (array_sort cmp xs)"

text \<open>
  The comparator's table: \<^verbatim>\<open>priorityOrder[p]\<close> is \<^verbatim>\<open>undefined\<close> (\<open>None\<close>) for a priority
  that is not a key.
\<close>

definition priorityOrder :: "TaskPriority \<Rightarrow> int option" where
  "priorityOrder p =
     (case p of Crucial \<Rightarrow> Some 0 | High \<Rightarrow> Some 1 | Normal \<Rightarrow> Some 2
      | Optional \<Rightarrow> Some 3 | Low \<Rightarrow> None)"

text \<open>
  \<^verbatim>\<open>v || d\<close> on a number or \<^verbatim>\<open>undefined\<close>: the default is taken when \<open>v\<close> is falsy,
  which \<^verbatim>\<open>undefined\<close> is and the number 0 is too.
\<close>

definition or_default :: "int option \<Rightarrow> int \<Rightarrow> int" where
  "or_default v d = (case v of None \<Rightarrow> d | Some n \<Rightarrow> if n = 0 then d else n)"

definition sortRank :: "TaskPriority \<Rightarrow> int" where
  "sortRank p = or_default (priorityOrder p) 2"

definition comparePriority :: "Task \<Rightarrow> Task \<Rightarrow> int" where
  "comparePriority a b = sortRank (priority a) - sortRank (priority b)"

text \<open>The truth value JavaScript gives a \<^verbatim>\<open>string | null\<close>: false for null and for the empty string.\<close>

definition truthy :: "string option \<Rightarrow> bool" where
  "truthy v = (case v of None \<Rightarrow> False | Some s \<Rightarrow> s \<noteq> [])"

definition relevantDate :: "FilterType \<Rightarrow> Task \<Rightarrow> Date" where
  "relevantDate selectedFilterType task =
     (case (selectedFilterType, dueDate task) of
        (ByDueDate, Some due) \<Rightarrow> due
      | _ \<Rightarrow> createdAt task)"

definition onSelectedDay :: "int \<Rightarrow> Date \<Rightarrow> FilterType \<Rightarrow> Task \<Rightarrow> bool" where
  "onSelectedDay tza currentDate selectedFilterType task =
     (let startTimestamp = setHours tza currentDate 0 0 0 0;
          endTimestamp = setHours tza currentDate 23 59 59 999;
          taskTimestamp = setHours tza (relevantDate selectedFilterType task) 0 0 0 0
      in taskTimestamp \<ge> startTimestamp \<and> taskTimestamp \<le> endTimestamp)"

text \<open>
  The tasks the date filter and the category filter retain, in the order of the
  collection: \<^verbatim>\<open>dateFiltered\<close> before it is sorted.
\<close>

definition dateFiltered ::
  "int \<Rightarrow> Task list \<Rightarrow> Date \<Rightarrow> FilterType \<Rightarrow> string option \<Rightarrow> Task list" where
  "dateFiltered tza tasks currentDate selectedFilterType activeCategory =
     (let byDate = filter (onSelectedDay tza currentDate selectedFilterType) tasks
      in if truthy activeCategory
         then filter (\<lambda>task. category task = activeCategory) byDate
         else byDate)"

text \<open>The list the effect hands to \<^verbatim>\<open>setFilteredTasks\<close>.\<close>

definition derive ::
  "int \<Rightarrow> Task list \<Rightarrow> Date \<Rightarrow> FilterType \<Rightarrow> string option \<Rightarrow> Task list" where
  "derive tza tasks currentDate selectedFilterType activeCategory =
     (if length tasks = 0 then []
      else array_sort comparePriority
             (dateFiltered tza tasks currentDate selectedFilterType activeCategory))"


section \<open>The state of the home screen and its handlers\<close>

text \<open>
  The React state the claims are about, and what the handlers leave behind that a user
  or a caller can see: the alerts shown, the lines written by \<^verbatim>\<open>console.error\<close>, and
  the collection the storage service holds (\<open>stored\<close>).
\<close>

record HomeState =
  tasks :: "Task list"
  filteredTasks :: "Task list"
  selectedFilterType :: FilterType
  activeCategory :: "string option"
  activeCategoryName :: "string option"
  categories :: "Category list"
  currentDate :: Date
  stored :: "Task list"
  alerts :: "(string \<times> string) list"
  consoleErrors :: "(string \<times> string) list"

definition getCategoryDetails :: "Category list \<Rightarrow> string option \<Rightarrow> Category option" where
  "getCategoryDetails cats categoryId =
     (if \<not> truthy categoryId then None
      else find (\<lambda>cat. Some (category_id cat) = categoryId) cats)"

text \<open>
  The effect that filters the tasks. It runs after every change of \<^verbatim>\<open>currentDate\<close>,
  \<^verbatim>\<open>tasks\<close>, \<^verbatim>\<open>selectedFilterType\<close>, \<^verbatim>\<open>activeCategory\<close> or \<^verbatim>\<open>categories\<close>; with no task it
  returns before it touches the category name.
\<close>

definition filterEffect :: "int \<Rightarrow> HomeState \<Rightarrow> HomeState" where
  "filterEffect tza st =
     (if length (tasks st) = 0 then st\<lparr>filteredTasks := []\<rparr>
      else
        let named =
              (if truthy (activeCategory st)
               then (case getCategoryDetails (categories st) (activeCategory st) of
                       Some categoryDetails \<Rightarrow>
                         st\<lparr>activeCategoryName := Some (category_name categoryDetails)\<rparr>
                     | None \<Rightarrow> st)
               else st\<lparr>activeCategoryName := None\<rparr>)
        in named\<lparr>filteredTasks :=
             derive tza (tasks st) (currentDate st) (selectedFilterType st) (activeCategory st)\<rparr>)"

text \<open>
  \<^verbatim>\<open>storageService.saveTasks\<close> belongs to \<^verbatim>\<open>../storage\<close>, outside the sources at hand:
  whether the call returns or throws is a parameter of the handler. The handler is an
  \<^verbatim>\<open>async\<close> function; \<open>outcome\<close> is how its promise settles.
\<close>

datatype save_result = SaveOk | SaveThrows string

datatype outcome = Resolved | Rejected string

definition handleToggleTaskCompletion ::
  "HomeState \<Rightarrow> string \<Rightarrow> save_result \<Rightarrow> outcome \<times> HomeState" where
  "handleToggleTaskCompletion st taskId save =
     (let updatedTasks =
            map (\<lambda>task. if task_id task = taskId
                         then task\<lparr>completed := \<not> completed task\<rparr> else task) (tasks st);
          st1 = st\<lparr>tasks := updatedTasks\<rparr>
      in case save of
           SaveOk \<Rightarrow> (Resolved, st1\<lparr>stored := updatedTasks\<rparr>)
         | SaveThrows error \<Rightarrow>
             (Resolved,
              st1\<lparr>consoleErrors := consoleErrors st1 @ [(''Error updating task:'', error)],
                  alerts := alerts st1 @ [(''Error'', ''Failed to update task status'')]\<rparr>))"


section \<open>The words of the specification\<close>

text \<open>
  The rank the specification gives a priority: crucial 0, high 1, normal 2, optional 3,
  and 2 for every other priority. It is written from the specification, to be compared
  with \<open>sortRank\<close>, which is what the comparator computes.
\<close>

definition specRank :: "TaskPriority \<Rightarrow> int" where
  "specRank p =
     (case p of Crucial \<Rightarrow> 0 | High \<Rightarrow> 1 | Normal \<Rightarrow> 2 | Optional \<Rightarrow> 3 | Low \<Rightarrow> 2)"

text \<open>The local calendar day of a time value, as a day number.\<close>

definition localDay :: "int \<Rightarrow> Date \<Rightarrow> int" where
  "localDay tza t = Day (LocalTime tza t)"


section \<open>Example data\<close>

text \<open>
  Scenario A of the specification, in the zone UTC: three tasks created on
  10 March 2024 (ids 1 and 2) and on 11 March 2024 (id 3).
\<close>

definition exampleTask :: "string \<Rightarrow> TaskPriority \<Rightarrow> Date \<Rightarrow> Task" where
  "exampleTask i p created =
     \<lparr>task_id = i, title = ''task'', description = None, createdAt = created,
      dueDate = None, priority = p, category = None, completed = False\<rparr>"

definition march10 :: Date where
  "march10 = 1710028800000"

definition march11 :: Date where
  "march11 = 1710115200000"

definition scenarioA :: "Task list" where
  "scenarioA =
     [exampleTask ''1'' High march10, exampleTask ''2'' Crucial march10,
      exampleTask ''3'' Normal march11]"

definition exampleState :: HomeState where
  "exampleState =
     \<lparr>tasks = scenarioA, filteredTasks = [], selectedFilterType = ByCreatedAt,
      activeCategory = None, activeCategoryName = None, categories = [],
      currentDate = march10, stored = scenarioA, alerts = [], consoleErrors = []\<rparr>"


text \<open>A task of the category \<^verbatim>\<open>work\<close>, and a collection with several tasks of one rank.\<close>

definition workTask :: Task where
  "workTask = (exampleTask ''4'' Normal march10)\<lparr>category := Some ''work''\<rparr>"

definition equalRankTasks :: "Task list" where
  "equalRankTasks =
     [exampleTask ''5'' Normal march10, exampleTask ''6'' High march10,
      exampleTask ''7'' Low march10, exampleTask ''8'' Normal march11,
      exampleTask ''9'' Normal march10]"


text \<open>
  A state that agrees with \<open>exampleState\<close> on the collection, the selected date, the
  filter field and the category filter, and differs in the rest.
\<close>

definition otherState :: HomeState where
  "otherState = exampleState\<lparr>filteredTasks := [workTask], activeCategoryName := Some ''work'',
     categories := [\<lparr>category_id = ''work'', category_name = ''Work''\<rparr>], alerts := [(''a'', ''b'')]\<rparr>"


section \<open>Facts about the calendar\<close>

lemma DayFromYear_mono_aux: "0 \<le> k \<Longrightarrow> DayFromYear y + 365 * k \<le> DayFromYear (y + k)"
proof (induction k rule: int_ge_induct)
  case base
  show ?case by simp
next
  case (step i)
  have "DayFromYear (y + (i + 1)) = DayFromYear (y + i) + DaysInYear (y + i)"
    using DayFromYear_step [of "y + i"] by (simp add: add.assoc)
  with step DaysInYear_cases [of "y + i"] show ?case by auto
qed

lemma DayFromYear_upper_aux: "0 \<le> k \<Longrightarrow> DayFromYear (y + k) \<le> DayFromYear y + 366 * k"
proof (induction k rule: int_ge_induct)
  case base
  show ?case by simp
next
  case (step i)
  have "DayFromYear (y + (i + 1)) = DayFromYear (y + i) + DaysInYear (y + i)"
    using DayFromYear_step [of "y + i"] by (simp add: add.assoc)
  with step DaysInYear_cases [of "y + i"] show ?case by auto
qed

lemma DayFromYear_strict_mono: "y < y' \<Longrightarrow> DayFromYear y < DayFromYear y'"
  using DayFromYear_mono_aux [of "y' - y" y] by simp

lemma DayFromYear_mono: "y \<le> y' \<Longrightarrow> DayFromYear y \<le> DayFromYear y'"
  using DayFromYear_mono_aux [of "y' - y" y] by simp

lemma DayFromYear_1970: "DayFromYear 1970 = 0"
  by (simp add: DayFromYear_def)

lemma year_search_spec:
  "DayFromYear y \<le> d \<Longrightarrow>
   DayFromYear (year_search d y) \<le> d \<and> d < DayFromYear (year_search d y + 1)"
proof (induction d y rule: year_search.induct)
  case (1 d y)
  show ?case
  proof (cases "DayFromYear (y + 1) \<le> d")
    case True
    with "1.IH" show ?thesis by (subst (1 2) year_search.simps) simp
  next
    case False
    with "1.prems" show ?thesis by (subst (1 2) year_search.simps) simp
  qed
qed


lemma year_start_le: "DayFromYear (1970 + (if 0 \<le> d then d div 366 else d div 365)) \<le> d"
proof (cases "0 \<le> d")
  case True
  then have k: "0 \<le> d div 366" by simp
  have "DayFromYear (1970 + d div 366) \<le> 366 * (d div 366)"
    using DayFromYear_upper_aux [OF k, of 1970] by (simp add: DayFromYear_1970)
  also have "\<dots> \<le> d"
    using mult_div_mod_eq [of 366 d] pos_mod_sign [of 366 d] by linarith
  finally show ?thesis using True by simp
next
  case False
  then have k: "0 \<le> - (d div 365)" by (simp add: div_int_pos_iff)
  have "DayFromYear (1970 + d div 365) + 365 * (- (d div 365)) \<le> DayFromYear 1970"
    using DayFromYear_mono_aux [OF k, of "1970 + d div 365"] by simp
  then have "DayFromYear (1970 + d div 365) \<le> 365 * (d div 365)"
    by (simp add: DayFromYear_1970)
  also have "\<dots> \<le> d"
    using mult_div_mod_eq [of 365 d] pos_mod_sign [of 365 d] by linarith
  finally show ?thesis using False by simp
qed

lemma YearFromDay_spec:
  "DayFromYear (YearFromDay d) \<le> d \<and> d < DayFromYear (YearFromDay d + 1)"
  unfolding YearFromDay_def by (rule year_search_spec [OF year_start_le])

lemma YearFromDay_unique:
  assumes "DayFromYear y \<le> d" and "d < DayFromYear (y + 1)"
  shows "YearFromDay d = y"
proof (rule ccontr)
  assume ne: "YearFromDay d \<noteq> y"
  let ?z = "YearFromDay d"
  from YearFromDay_spec [of d] have z: "DayFromYear ?z \<le> d" "d < DayFromYear (?z + 1)" by simp_all
  from ne consider "?z + 1 \<le> y" | "y + 1 \<le> ?z" by linarith
  then show False
  proof cases
    case 1
    from DayFromYear_mono [OF 1] z assms show False by linarith
  next
    case 2
    from DayFromYear_mono [OF 2] z assms show False by linarith
  qed
qed


lemma month_cases:
  fixes m :: int
  assumes "0 \<le> m" "m \<le> 11"
  shows "m = 0 \<or> m = 1 \<or> m = 2 \<or> m = 3 \<or> m = 4 \<or> m = 5 \<or> m = 6 \<or> m = 7 \<or> m = 8
       \<or> m = 9 \<or> m = 10 \<or> m = 11"
  using assms by arith

lemma Day_MakeDate: "0 \<le> tm \<Longrightarrow> tm < msPerDay \<Longrightarrow> Day (MakeDate day tm) = day"
  unfolding Day_def MakeDate_def
  by (rule int_div_pos_eq [of _ _ _ tm]) (simp_all add: msPerDay_def)

lemma within_year:
  assumes "0 \<le> w" "w < DaysInYear y"
  shows "YearFromDay (DayFromYear y + w) = y"
  using assms by (intro YearFromDay_unique) (simp_all add: DayFromYear_step)

lemma civil_of_day:
  assumes m: "0 \<le> m" "m \<le> 11" and dt: "1 \<le> dt" "dt \<le> daysInMonth y m"
    and t: "Day t = MakeDay y m dt"
  shows "YearFromTime t = y \<and> MonthFromTime t = m \<and> DateFromTime t = dt"
proof -
  define l :: int where "l = (if DaysInYear y = 366 then 1 else 0)"
  define w where "w = monthStart m l + dt - 1"
  have md: "m div 12 = 0" "m mod 12 = m" using m by simp_all
  have day: "Day t = DayFromYear y + w"
    by (simp add: t MakeDay_def md w_def l_def)
  have diy: "DaysInYear y = 365 + l"
    using DaysInYear_cases [of y] by (auto simp: l_def)
  have l01: "l = 0 \<or> l = 1" by (simp add: l_def)
  have dim: "daysInMonth y m = (if m = 1 then 28 + l
      else if m = 3 \<or> m = 5 \<or> m = 8 \<or> m = 10 then 30 else 31)"
    by (simp add: daysInMonth_def l_def)
  have "0 \<le> w \<and> w < DaysInYear y"
    using month_cases [OF m] l01 dt unfolding w_def diy dim monthStart_def
    by (elim disjE; simp)
  then have w: "0 \<le> w" "w < DaysInYear y" by simp_all
  have yr: "YearFromTime t = y"
    unfolding YearFromTime_def day by (rule within_year [OF w])
  have leap: "InLeapYear t = l"
    by (simp add: InLeapYear_def yr l_def)
  have dwy: "DayWithinYear t = w"
    by (simp add: DayWithinYear_def yr day)
  have mon: "MonthFromTime t = m"
    using month_cases [OF m] l01 dt
    unfolding MonthFromTime_def Let_def dwy leap w_def dim monthStart_def
    by (elim disjE; simp)
  have "DateFromTime t = dt"
    using month_cases [OF m] l01
    unfolding DateFromTime_def Let_def dwy leap mon w_def monthStart_def
    by (elim disjE; simp)
  with yr mon show ?thesis by simp
qed


lemma push_days_eq: "push_days mk i n dates = dates @ map mk [i..n]"
proof (induction mk i n dates rule: push_days.induct)
  case (1 mk i n dates)
  show ?case
  proof (cases "i \<le> n")
    case True
    with "1.IH" show ?thesis
      by (subst push_days.simps) (simp add: upto_rec1 [of i n])
  next
    case False
    then show ?thesis by (subst push_days.simps) simp
  qed
qed

lemma MonthFromTime_range: "0 \<le> MonthFromTime t \<and> MonthFromTime t \<le> 11"
  by (simp add: MonthFromTime_def Let_def)

lemma YearFromDay_ge: "DayFromYear y \<le> d \<Longrightarrow> y \<le> YearFromDay d"
proof (rule ccontr)
  assume a: "DayFromYear y \<le> d" and "\<not> y \<le> YearFromDay d"
  then have "YearFromDay d + 1 \<le> y" by simp
  from DayFromYear_mono [OF this] a YearFromDay_spec [of d] show False by linarith
qed

lemma year_of_clock:
  assumes "- msPerDay \<le> tza"
  shows "1969 \<le> getFullYear tza (int clock)"
proof -
  have "- msPerDay \<le> int clock + tza" using assms by simp
  then have "(- msPerDay) div msPerDay \<le> (int clock + tza) div msPerDay"
    by (intro zdiv_mono1) (simp_all add: msPerDay_def)
  then have "- 1 \<le> Day (LocalTime tza (int clock))"
    by (simp add: Day_def LocalTime_def msPerDay_def)
  moreover have "DayFromYear 1969 = - 365" by (simp add: DayFromYear_def)
  ultimately have "DayFromYear 1969 \<le> Day (LocalTime tza (int clock))" by simp
  from YearFromDay_ge [OF this] show ?thesis
    by (simp add: getFullYear_def YearFromTime_def)
qed

lemma daysInMonth_ge: "28 \<le> daysInMonth y m"
  by (simp add: daysInMonth_def)

lemma MakeDay_day0:
  assumes "0 \<le> m" "m \<le> 11"
  shows "MakeDay y (m + 1) 0 = MakeDay y m (daysInMonth y m)"
proof (cases "m = 11")
  case True
  have "DaysInYear y = 365 \<or> DaysInYear y = 366" by (rule DaysInYear_cases)
  then show ?thesis
    by (auto simp: True MakeDay_def monthStart_def daysInMonth_def DayFromYear_step)
next
  case False
  with assms have md: "(m + 1) div 12 = 0" "(m + 1) mod 12 = m + 1" "m div 12 = 0" "m mod 12 = m"
    by simp_all
  show ?thesis
    using month_cases [OF assms] False
    unfolding MakeDay_def Let_def md monthStart_def daysInMonth_def
    by (elim disjE; simp)
qed

lemma LocalTime_newDate:
  "\<not> (0 \<le> y \<and> y \<le> 99) \<Longrightarrow> LocalTime tza (newDate tza y m d) = MakeDate (MakeDay y m d) 0"
  by (auto simp: newDate_def LocalTime_def UTC_def MakeTime_def)

lemma Day_newDate:
  "\<not> (0 \<le> y \<and> y \<le> 99) \<Longrightarrow> Day (LocalTime tza (newDate tza y m d)) = MakeDay y m d"
  by (simp add: LocalTime_newDate Day_MakeDate msPerDay_def)

lemma fields_newDate:
  assumes "\<not> (0 \<le> y \<and> y \<le> 99)" "0 \<le> m" "m \<le> 11" "1 \<le> d" "d \<le> daysInMonth y m"
  shows "getFullYear tza (newDate tza y m d) = y \<and> getMonth tza (newDate tza y m d) = m
       \<and> getDate tza (newDate tza y m d) = d"
  unfolding getFullYear_def getMonth_def getDate_def
  by (rule civil_of_day [OF assms(2-5) Day_newDate [OF assms(1)]])


lemma getDate_lastDay:
  assumes "\<not> (0 \<le> y \<and> y \<le> 99)" "0 \<le> m" "m \<le> 11"
  shows "getDate tza (newDate tza y (m + 1) 0) = daysInMonth y m"
proof -
  have d: "Day (LocalTime tza (newDate tza y (m + 1) 0)) = MakeDay y m (daysInMonth y m)"
    by (simp add: Day_newDate [OF assms(1)] MakeDay_day0 [OF assms(2,3)])
  have "1 \<le> daysInMonth y m" using daysInMonth_ge [of y m] by simp
  from civil_of_day [OF assms(2,3) this order_refl d] show ?thesis
    by (simp add: getDate_def)
qed

lemma MakeDay_date: "MakeDay y m d = MakeDay y m 1 + (d - 1)"
  by (simp add: MakeDay_def Let_def)

lemma MakeDay_next:
  assumes "0 \<le> m" "m \<le> 11"
  shows "MakeDay (if m = 11 then y + 1 else y) (if m = 11 then 0 else m + 1) 1
       = MakeDay y m 1 + daysInMonth y m"
proof -
  have "MakeDay (if m = 11 then y + 1 else y) (if m = 11 then 0 else m + 1) 1 = MakeDay y (m + 1) 1"
    by (simp add: MakeDay_def)
  also have "\<dots> = MakeDay y (m + 1) 0 + 1"
    by (simp add: MakeDay_def Let_def)
  also have "\<dots> = MakeDay y m 1 + daysInMonth y m"
    using MakeDay_date [of y m "daysInMonth y m"] by (simp add: MakeDay_day0 [OF assms])
  finally show ?thesis .
qed

lemma newDate_plain:
  "\<not> (0 \<le> y \<and> y \<le> 99) \<Longrightarrow> newDate tza y m d = MakeDay y m d * msPerDay - tza"
  by (auto simp: newDate_def UTC_def MakeDate_def MakeTime_def)

text \<open>The current year and month, as the generator reads them from the clock.\<close>

lemma dateRange_eq:
  fixes tza :: int and clock :: nat
  assumes tz: "- msPerDay \<le> tza"
  defines "y \<equiv> getFullYear tza (int clock)" and "m \<equiv> getMonth tza (int clock)"
  shows "dateRange tza clock =
           map (\<lambda>i. newDate tza y m i) [1..daysInMonth y m] @
           map (\<lambda>i. newDate tza (if m = 11 then y + 1 else y) (if m = 11 then 0 else m + 1) i) [1..15]"
proof -
  have y: "\<not> (0 \<le> y \<and> y \<le> 99)"
    using year_of_clock [OF tz, of clock] by (simp add: y_def)
  have m: "0 \<le> m" "m \<le> 11"
    using MonthFromTime_range [of "LocalTime tza (int clock)"] by (simp_all add: m_def getMonth_def)
  show ?thesis
    unfolding dateRange_def Let_def push_days_eq
    by (simp add: getDate_lastDay [OF y m] flip: y_def m_def)
qed

lemma dateRange_days:
  fixes tza :: int and clock :: nat
  assumes tz: "- msPerDay \<le> tza"
  defines "y \<equiv> getFullYear tza (int clock)" and "m \<equiv> getMonth tza (int clock)"
  shows "dateRange tza clock =
           map (\<lambda>k. (MakeDay y m 1 + int k) * msPerDay - tza) [0..<nat (daysInMonth y m) + 15]"
proof -
  let ?n = "daysInMonth y m"
  let ?ny = "if m = 11 then y + 1 else y" and ?nm = "if m = 11 then 0 else m + 1"
  have y: "\<not> (0 \<le> y \<and> y \<le> 99)" and ny: "\<not> (0 \<le> ?ny \<and> ?ny \<le> 99)"
    using year_of_clock [OF tz, of clock] by (simp_all add: y_def)
  have m: "0 \<le> m" "m \<le> 11"
    using MonthFromTime_range [of "LocalTime tza (int clock)"] by (simp_all add: m_def getMonth_def)
  have n: "0 \<le> ?n" using daysInMonth_ge [of y m] by simp
  have eq: "dateRange tza clock =
      map (\<lambda>i. newDate tza y m i) [1..?n] @ map (\<lambda>i. newDate tza ?ny ?nm i) [1..15]"
    unfolding y_def m_def by (rule dateRange_eq [OF tz])
  show ?thesis
  proof (rule nth_equalityI)
    show len: "length (dateRange tza clock) = length (map (\<lambda>k. (MakeDay y m 1 + int k) * msPerDay - tza) [0..<nat ?n + 15])"
      using n by (simp add: eq)
    fix i assume "i < length (dateRange tza clock)"
    then have i: "i < nat ?n + 15" using len by simp
    show "dateRange tza clock ! i = map (\<lambda>k. (MakeDay y m 1 + int k) * msPerDay - tza) [0..<nat ?n + 15] ! i"
    proof (cases "i < nat ?n")
      case True
      then have "dateRange tza clock ! i = newDate tza y m (1 + int i)"
        using n by (simp add: eq nth_append)
      also have "\<dots> = (MakeDay y m 1 + int i) * msPerDay - tza"
        using MakeDay_date [of y m "1 + int i"] by (simp add: newDate_plain [OF y])
      finally show ?thesis using i by simp
    next
      case False
      then have j: "i - nat ?n < 15" using i by simp
      have "dateRange tza clock ! i = newDate tza ?ny ?nm (1 + int (i - nat ?n))"
        using False n j by (simp add: eq nth_append)
      also have "\<dots> = (MakeDay ?ny ?nm 1 + int (i - nat ?n)) * msPerDay - tza"
        using MakeDay_date [of ?ny ?nm "1 + int (i - nat ?n)"] by (simp add: newDate_plain [OF ny])
      also have "\<dots> = (MakeDay y m 1 + int i) * msPerDay - tza"
        using False n by (simp add: MakeDay_next [OF m])
      finally show ?thesis using i by simp
    qed
  qed
qed


lemma dateRange_sorted:
  "sorted_wrt (<) (map (\<lambda>k. (c + int k) * msPerDay - tza) [0..<n])"
  by (simp add: sorted_wrt_iff_nth_less msPerDay_def)

lemma clock_march10:
  "getFullYear 0 1710028800000 = 2024" "getMonth 0 1710028800000 = 2"
  by code_simp+

lemma clock_december31:
  "getFullYear 3600000 1703980800000 = 2023" "getMonth 3600000 1703980800000 = 11"
  by code_simp+

lemma daysInMonth_examples: "daysInMonth 2024 2 = 31" "daysInMonth 2023 11 = 31"
  by (simp_all add: daysInMonth_def)


section \<open>Facts about the pipeline\<close>

lemma insert_by_insort_key:
  "insert_by comparePriority x ys = insort_key (\<lambda>t. sortRank (priority t)) x ys"
  by (induction ys) (simp_all add: comparePriority_def)

lemma array_sort_sort_key:
  "array_sort comparePriority xs = sort_key (\<lambda>t. sortRank (priority t)) xs"
  by (induction xs) (simp_all add: insert_by_insort_key)

lemma set_array_sort: "set (array_sort comparePriority xs) = set xs"
  by (simp add: array_sort_sort_key)

lemma length_array_sort: "length (array_sort comparePriority xs) = length xs"
  by (simp add: array_sort_sort_key)

lemma sorted_array_sort:
  "sorted (map (\<lambda>t. sortRank (priority t)) (array_sort comparePriority xs))"
  by (simp add: array_sort_sort_key)

lemma stable_array_sort:
  "filter (\<lambda>t. sortRank (priority t) = k) (array_sort comparePriority xs) =
   filter (\<lambda>t. sortRank (priority t) = k) xs"
  by (simp add: array_sort_sort_key sort_key_stable)

lemma sortRank_table:
  "sortRank Crucial = 2" "sortRank High = 1" "sortRank Normal = 2" "sortRank Optional = 3"
  "sortRank Low = 2"
  by (simp_all add: sortRank_def priorityOrder_def or_default_def)

lemma derive_eq_sort:
  "derive tza ts d ft ac = array_sort comparePriority (dateFiltered tza ts d ft ac)"
  by (cases ts) (simp_all add: derive_def dateFiltered_def)

lemma set_derive: "set (derive tza ts d ft ac) = set (dateFiltered tza ts d ft ac)"
  by (simp add: derive_eq_sort set_array_sort)

lemma setHours_eq: "setHours tza t h m s ms = localDay tza t * msPerDay + MakeTime h m s ms - tza"
  by (simp add: setHours_def UTC_def MakeDate_def localDay_def)

lemma onSelectedDay_iff:
  "onSelectedDay tza d ft task \<longleftrightarrow> localDay tza (relevantDate ft task) = localDay tza d"
  unfolding onSelectedDay_def Let_def setHours_eq MakeTime_def msPerDay_def by auto

lemma dateFiltered_filter:
  "dateFiltered tza ts d ft ac =
     filter (\<lambda>task. onSelectedDay tza d ft task \<and> (\<not> truthy ac \<or> category task = ac)) ts"
  by (simp add: dateFiltered_def Let_def)

lemma relevantDate_eq:
  "relevantDate ft task =
     (if ft = ByDueDate \<and> dueDate task \<noteq> None then the (dueDate task) else createdAt task)"
  by (cases ft; cases "dueDate task") (simp_all add: relevantDate_def)

lemma same_day_iff:
  "localDay tza x = localDay tza d \<longleftrightarrow>
     setHours tza d 0 0 0 0 \<le> setHours tza x 0 0 0 0 \<and>
     setHours tza x 0 0 0 0 \<le> setHours tza d 23 59 59 999"
  unfolding setHours_eq MakeTime_def msPerDay_def by auto

lemma localDay_march: "localDay 0 march10 = 19792" "localDay 0 march11 = 19793"
  by (simp_all add: localDay_def Day_def LocalTime_def msPerDay_def march10_def march11_def)

lemma specRank_sortRank:
  "specRank p = k \<Longrightarrow> sortRank p = (if k = 0 then 2 else k)"
  by (cases p) (auto simp: specRank_def sortRank_table)

lemma filter_specRank:
  "filter (\<lambda>t. specRank (priority t) = k) xs =
   filter (\<lambda>t. specRank (priority t) = k)
     (filter (\<lambda>t. sortRank (priority t) = (if k = 0 then 2 else k)) xs)"
proof -
  define r where "r = (if k = 0 then 2 else k)"
  have imp: "specRank (priority t) = k \<Longrightarrow> sortRank (priority t) = r" for t
    using specRank_sortRank [of "priority t" k] unfolding r_def by blast
  have "filter (\<lambda>t. specRank (priority t) = k) xs =
      filter (\<lambda>t. specRank (priority t) = k) (filter (\<lambda>t. sortRank (priority t) = r) xs)"
    by (induction xs) (auto simp: imp)
  then show ?thesis unfolding r_def .
qed

lemma march10_is: "newDate 0 2024 2 10 = march10 \<and> newDate 0 2024 2 11 = march11"
  by (simp add: newDate_def MakeDay_def DayFromYear_def DaysInYear_def monthStart_def UTC_def
       MakeDate_def MakeTime_def msPerDay_def march10_def march11_def)


text \<open>The collection after a toggle, and how the handler's promise settles.\<close>

lemma toggle_tasks:
  "tasks (snd (handleToggleTaskCompletion st taskId save)) =
     map (\<lambda>task. if task_id task = taskId then task\<lparr>completed := \<not> completed task\<rparr> else task)
       (tasks st)"
  by (cases save) (simp_all add: handleToggleTaskCompletion_def Let_def)

lemma toggle_outcome: "fst (handleToggleTaskCompletion st taskId save) = Resolved"
  by (cases save) (simp_all add: handleToggleTaskCompletion_def Let_def)


section \<open>The claims about the filter and sort pipeline\<close>

text \<open>
  C1. The pipeline is claimed to order the retained tasks by the rank crucial 0, high 1,
  normal 2, optional 3, and to give \<open>[2, 1]\<close> on Scenario A. The comparator reads the
  rank as \<^verbatim>\<open>priorityOrder[p] || 2\<close>; the rank 0 of crucial is falsy, so crucial is sorted
  with rank 2, after high. On Scenario A the pipeline returns the tasks 1 and 2 in this
  order: the high task before the crucial one.
\<close>

theorem scenarioA_output:
  "map task_id (derive 0 scenarioA march10 ByCreatedAt None) = [''1'', ''2'']"
  by (simp add: derive_def dateFiltered_def scenarioA_def exampleTask_def march10_def march11_def
      onSelectedDay_def setHours_def UTC_def LocalTime_def MakeDate_def MakeTime_def Day_def msPerDay_def
      relevantDate_def truthy_def comparePriority_def sortRank_def priorityOrder_def or_default_def)

text \<open>
  C2. With no category filter, a task is in the derived list exactly when it is in the
  collection and its comparison date (the due date when the filter field is the due
  date and the task has one, the creation date otherwise) lies on the local calendar
  day of the selected date; lying on that day is the same as the date, with its time
  of day set to 0:00:00.000, being between the start and the end of the selected day.
\<close>

theorem derive_date_filter:
  "(task \<in> set (derive tza ts d ft None) \<longleftrightarrow>
      task \<in> set ts \<and> localDay tza (relevantDate ft task) = localDay tza d)
   \<and> relevantDate ft task =
      (if ft = ByDueDate \<and> dueDate task \<noteq> None then the (dueDate task) else createdAt task)
   \<and> (localDay tza (relevantDate ft task) = localDay tza d \<longleftrightarrow>
        setHours tza d 0 0 0 0 \<le> setHours tza (relevantDate ft task) 0 0 0 0 \<and>
        setHours tza (relevantDate ft task) 0 0 0 0 \<le> setHours tza d 23 59 59 999)"
proof (intro conjI)
  show "task \<in> set (derive tza ts d ft None) \<longleftrightarrow>
      task \<in> set ts \<and> localDay tza (relevantDate ft task) = localDay tza d"
    by (simp add: set_derive dateFiltered_filter truthy_def onSelectedDay_iff)
  show "relevantDate ft task =
      (if ft = ByDueDate \<and> dueDate task \<noteq> None then the (dueDate task) else createdAt task)"
    by (rule relevantDate_eq)
  show "localDay tza (relevantDate ft task) = localDay tza d \<longleftrightarrow>
        setHours tza d 0 0 0 0 \<le> setHours tza (relevantDate ft task) 0 0 0 0 \<and>
        setHours tza (relevantDate ft task) 0 0 0 0 \<le> setHours tza d 23 59 59 999"
    by (rule same_day_iff)
qed

theorem derive_date_filter_witness:
  "exampleTask ''1'' High march10 \<in> set (derive 0 scenarioA march10 ByCreatedAt None)
   \<and> exampleTask ''3'' Normal march11 \<notin> set (derive 0 scenarioA march10 ByCreatedAt None)"
  using derive_date_filter [of "exampleTask ''1'' High march10" 0 scenarioA march10 ByCreatedAt]
    derive_date_filter [of "exampleTask ''3'' Normal march11" 0 scenarioA march10 ByCreatedAt]
  by (simp add: scenarioA_def exampleTask_def localDay_march)

text \<open>
  C5. A task without a due date is compared by its creation date also when the filter
  field is the due date: when the selected date is the day it was created on, it is in
  the derived list (with no category filter, or with its own category as the filter).
\<close>

theorem due_date_fallback:
  assumes "task \<in> set ts" and "dueDate task = None"
    and "localDay tza (createdAt task) = localDay tza d"
    and "\<not> truthy ac \<or> category task = ac"
  shows "task \<in> set (derive tza ts d ByDueDate ac)"
  using assms
  by (simp add: set_derive dateFiltered_filter onSelectedDay_iff relevantDate_def)

theorem due_date_fallback_witness:
  "exampleTask ''1'' High march10 \<in> set (derive 0 scenarioA march10 ByDueDate None)"
  by (rule due_date_fallback)
     (simp_all add: scenarioA_def exampleTask_def truthy_def)

text \<open>
  C6, as amended. The claim speaks of every filter that is not null. The effect tests
  \<^verbatim>\<open>if (activeCategory)\<close>, and the empty string is as false as null: with it no task
  is filtered by category, as the counterexample after the theorem shows. For every filter
  that is a non-empty string, every task of the derived list has exactly that category,
  and a task of the collection without a category is not in the list.
\<close>

theorem category_filter_exact:
  assumes "truthy ac"
  shows "(\<forall>task \<in> set (derive tza ts d ft ac). category task = ac)
       \<and> (\<forall>task \<in> set ts. category task = None \<longrightarrow> task \<notin> set (derive tza ts d ft ac))"
  using assms by (auto simp: set_derive dateFiltered_filter truthy_def)

theorem category_filter_empty_string:
  "workTask \<in> set (derive 0 [workTask] march10 ByCreatedAt (Some []))
   \<and> category workTask \<noteq> Some []"
  by (simp add: set_derive dateFiltered_filter truthy_def onSelectedDay_iff relevantDate_def
      workTask_def exampleTask_def)

theorem category_filter_exact_witness:
  "derive 0 (workTask # scenarioA) march10 ByCreatedAt (Some ''work'') = [workTask]
   \<and> category workTask = Some ''work''"
proof -
  have t: "truthy (Some ''work'')" by (simp add: truthy_def)
  have in_out: "workTask \<in> set (derive 0 (workTask # scenarioA) march10 ByCreatedAt (Some ''work''))"
    by (simp add: set_derive dateFiltered_filter truthy_def onSelectedDay_iff relevantDate_def
        workTask_def exampleTask_def)
  from category_filter_exact [OF t, of 0 "workTask # scenarioA" march10 ByCreatedAt] in_out
  have c: "category workTask = Some ''work''" by blast
  have "derive 0 (workTask # scenarioA) march10 ByCreatedAt (Some ''work'') = [workTask]"
    by (simp add: derive_eq_sort dateFiltered_filter truthy_def onSelectedDay_iff relevantDate_def
        workTask_def exampleTask_def scenarioA_def localDay_march)
  with c show ?thesis by simp
qed

text \<open>
  C8. The sort is stable: the tasks of one rank stand in the derived list in the order
  in which the filters retained them, and the retained tasks are the tasks of the
  collection that pass the filters, in the order of the collection. This holds for the
  rank of the specification (\<open>specRank\<close>) and for the rank the comparator computes
  (\<open>sortRank\<close>).
\<close>

theorem sort_stable:
  "filter (\<lambda>t. specRank (priority t) = k) (derive tza ts d ft ac) =
     filter (\<lambda>t. specRank (priority t) = k) (dateFiltered tza ts d ft ac)
   \<and> filter (\<lambda>t. sortRank (priority t) = k) (derive tza ts d ft ac) =
     filter (\<lambda>t. sortRank (priority t) = k) (dateFiltered tza ts d ft ac)
   \<and> dateFiltered tza ts d ft ac =
     filter (\<lambda>task. onSelectedDay tza d ft task \<and> (\<not> truthy ac \<or> category task = ac)) ts"
proof (intro conjI)
  show "filter (\<lambda>t. sortRank (priority t) = k) (derive tza ts d ft ac) =
     filter (\<lambda>t. sortRank (priority t) = k) (dateFiltered tza ts d ft ac)"
    by (simp add: derive_eq_sort stable_array_sort)
  have "filter (\<lambda>t. specRank (priority t) = k) (derive tza ts d ft ac) =
      filter (\<lambda>t. specRank (priority t) = k)
        (filter (\<lambda>t. sortRank (priority t) = (if k = 0 then 2 else k)) (derive tza ts d ft ac))"
    by (rule filter_specRank)
  also have "\<dots> = filter (\<lambda>t. specRank (priority t) = k)
        (filter (\<lambda>t. sortRank (priority t) = (if k = 0 then 2 else k)) (dateFiltered tza ts d ft ac))"
    by (simp only: derive_eq_sort stable_array_sort)
  also have "\<dots> = filter (\<lambda>t. specRank (priority t) = k) (dateFiltered tza ts d ft ac)"
    by (rule filter_specRank [symmetric])
  finally show "filter (\<lambda>t. specRank (priority t) = k) (derive tza ts d ft ac) =
     filter (\<lambda>t. specRank (priority t) = k) (dateFiltered tza ts d ft ac)" .
  show "dateFiltered tza ts d ft ac =
     filter (\<lambda>task. onSelectedDay tza d ft task \<and> (\<not> truthy ac \<or> category task = ac)) ts"
    by (rule dateFiltered_filter)
qed

theorem sort_stable_witness:
  "map task_id (filter (\<lambda>t. specRank (priority t) = 2)
      (derive 0 equalRankTasks march10 ByCreatedAt None)) = [''5'', ''7'', ''9'']"
proof -
  have "filter (\<lambda>t. specRank (priority t) = 2) (derive 0 equalRankTasks march10 ByCreatedAt None) =
     filter (\<lambda>t. specRank (priority t) = 2) (dateFiltered 0 equalRankTasks march10 ByCreatedAt None)"
    using sort_stable [of 2 0 equalRankTasks march10 ByCreatedAt None] by blast
  then show ?thesis
    by (simp add: dateFiltered_filter truthy_def onSelectedDay_iff relevantDate_def
        equalRankTasks_def exampleTask_def localDay_march specRank_def)
qed

text \<open>
  C9. The derived list is a function of the collection, the selected date, the filter
  field and the category filter (and of the zone of the device, a parameter of the
  model that both runs share): two states that agree on the four give the same list,
  whatever the other state holds; the effect leaves its four inputs as they are, and a
  second run of the effect changes nothing.
\<close>

theorem derive_pure:
  assumes "tasks st = tasks st'" and "currentDate st = currentDate st'"
    and "selectedFilterType st = selectedFilterType st'" and "activeCategory st = activeCategory st'"
  shows "filteredTasks (filterEffect tza st) = filteredTasks (filterEffect tza st')
    \<and> filteredTasks (filterEffect tza st) =
        derive tza (tasks st) (currentDate st) (selectedFilterType st) (activeCategory st)
    \<and> filterEffect tza (filterEffect tza st) = filterEffect tza st
    \<and> tasks (filterEffect tza st) = tasks st
    \<and> currentDate (filterEffect tza st) = currentDate st
    \<and> selectedFilterType (filterEffect tza st) = selectedFilterType st
    \<and> activeCategory (filterEffect tza st) = activeCategory st"
proof -
  have out: "filteredTasks (filterEffect tza s) =
      derive tza (tasks s) (currentDate s) (selectedFilterType s) (activeCategory s)" for s
    by (auto simp: filterEffect_def Let_def derive_def split: option.splits)
  have frame: "tasks (filterEffect tza s) = tasks s \<and> currentDate (filterEffect tza s) = currentDate s
      \<and> selectedFilterType (filterEffect tza s) = selectedFilterType s
      \<and> activeCategory (filterEffect tza s) = activeCategory s
      \<and> categories (filterEffect tza s) = categories s" for s
    by (auto simp: filterEffect_def Let_def split: option.splits)
  have idem: "filterEffect tza (filterEffect tza st) = filterEffect tza st"
    by (auto simp: filterEffect_def Let_def derive_def split: option.splits)
  from out [of st] out [of st'] assms frame [of st] idem show ?thesis by simp
qed

theorem derive_pure_witness:
  "filteredTasks (filterEffect 0 exampleState) = filteredTasks (filterEffect 0 otherState)
   \<and> filterEffect 0 (filterEffect 0 exampleState) = filterEffect 0 exampleState"
proof -
  have "tasks exampleState = tasks otherState" "currentDate exampleState = currentDate otherState"
    "selectedFilterType exampleState = selectedFilterType otherState"
    "activeCategory exampleState = activeCategory otherState"
    by (simp_all add: otherState_def)
  from derive_pure [OF this, of 0] show ?thesis by simp
qed


section \<open>The claim about the date range\<close>

text \<open>
  C3. For every reading of the clock, in a zone that is not more than a day behind UTC:
  the range has as many dates as the current month has days, and 15 more; it is
  strictly ascending; its date number \<open>i\<close> is day \<open>i + 1\<close> of the current month of the
  current year, so it begins at day 1 and covers every day of the month; the 15 dates
  after these are the days 1 to 15 of the next month, which is January of the next year
  when the current month is December; and each date is one day after the date before.
\<close>

theorem dateRange_correct:
  fixes tza :: int and clock :: nat
  assumes tz: "- msPerDay \<le> tza"
  defines "y \<equiv> getFullYear tza (int clock)"
    and "m \<equiv> getMonth tza (int clock)"
  defines "n \<equiv> nat (daysInMonth y m)"
    and "r \<equiv> dateRange tza clock"
  shows "length r = n + 15
    \<and> sorted_wrt (<) r
    \<and> (\<forall>i<n. getFullYear tza (r ! i) = y \<and> getMonth tza (r ! i) = m
           \<and> getDate tza (r ! i) = int i + 1)
    \<and> (\<forall>j<15. getFullYear tza (r ! (n + j)) = (if m = 11 then y + 1 else y)
           \<and> getMonth tza (r ! (n + j)) = (if m = 11 then 0 else m + 1)
           \<and> getDate tza (r ! (n + j)) = int j + 1)
    \<and> (\<forall>i. i + 1 < length r \<longrightarrow> r ! (i + 1) = r ! i + msPerDay)"
proof -
  let ?ny = "if m = 11 then y + 1 else y" and ?nm = "if m = 11 then 0 else m + 1"
  have y: "\<not> (0 \<le> y \<and> y \<le> 99)" and ny: "\<not> (0 \<le> ?ny \<and> ?ny \<le> 99)"
    using year_of_clock [OF tz, of clock] by (simp_all add: y_def)
  have m: "0 \<le> m" "m \<le> 11"
    using MonthFromTime_range [of "LocalTime tza (int clock)"] by (simp_all add: m_def getMonth_def)
  have nm: "0 \<le> ?nm" "?nm \<le> 11" using m by simp_all
  have dim: "daysInMonth y m = int n"
    using daysInMonth_ge [of y m] by (simp add: n_def)
  have eq: "r = map (\<lambda>i. newDate tza y m i) [1..int n] @ map (\<lambda>i. newDate tza ?ny ?nm i) [1..15]"
    unfolding r_def y_def m_def dim [unfolded y_def m_def, symmetric] by (rule dateRange_eq [OF tz])
  have days: "r = map (\<lambda>k. (MakeDay y m 1 + int k) * msPerDay - tza) [0..<n + 15]"
    unfolding r_def y_def m_def n_def by (rule dateRange_days [OF tz])
  have len: "length r = n + 15" by (simp add: days)
  have sorted: "sorted_wrt (<) r" unfolding days by (rule dateRange_sorted)
  have cur: "getFullYear tza (r ! i) = y \<and> getMonth tza (r ! i) = m
           \<and> getDate tza (r ! i) = int i + 1" if "i < n" for i
  proof -
    have "r ! i = newDate tza y m (1 + int i)"
      using that by (simp add: eq nth_append)
    moreover have "1 + int i \<le> daysInMonth y m" using that by (simp add: dim)
    ultimately show ?thesis
      using fields_newDate [OF y m, of "1 + int i" tza] by (simp add: add.commute)
  qed
  have nxt: "getFullYear tza (r ! (n + j)) = ?ny \<and> getMonth tza (r ! (n + j)) = ?nm
           \<and> getDate tza (r ! (n + j)) = int j + 1" if "j < 15" for j
  proof -
    have "r ! (n + j) = newDate tza ?ny ?nm (1 + int j)"
      using that by (simp add: eq nth_append)
    moreover have "1 + int j \<le> daysInMonth ?ny ?nm"
      using that daysInMonth_ge [of ?ny ?nm] by linarith
    ultimately show ?thesis
      using fields_newDate [OF ny nm, of "1 + int j" tza] by (simp add: add.commute)
  qed
  have step: "r ! (i + 1) = r ! i + msPerDay" if "i + 1 < length r" for i
    using that unfolding days by (simp add: algebra_simps)
  from len sorted cur nxt step show ?thesis by blast
qed

theorem dateRange_correct_witness:
  "length (dateRange 0 1710028800000) = 46
   \<and> getDate 0 (dateRange 0 1710028800000 ! 30) = 31
   \<and> getMonth 0 (dateRange 0 1710028800000 ! 31) = 3
   \<and> getDate 0 (dateRange 0 1710028800000 ! 45) = 15
   \<and> getFullYear 3600000 (dateRange 3600000 1703980800000 ! 31) = 2024
   \<and> getMonth 3600000 (dateRange 3600000 1703980800000 ! 31) = 0
   \<and> getDate 3600000 (dateRange 3600000 1703980800000 ! 31) = 1"
proof -
  have tz: "- msPerDay \<le> 0" "- msPerDay \<le> 3600000" by (simp_all add: msPerDay_def)
  note c = dateRange_correct [OF tz(1), of 1710028800000,
      unfolded of_nat_numeral clock_march10 daysInMonth_examples, simplified]
  note d = dateRange_correct [OF tz(2), of 1703980800000,
      unfolded of_nat_numeral clock_december31 daysInMonth_examples, simplified]
  from c have len: "length (dateRange 0 1710028800000) = 46" by simp
  from c have cur: "getDate 0 (dateRange 0 1710028800000 ! i) = int i + 1" if "i < 31" for i
    using that by blast
  from c have nxt: "getMonth 0 (dateRange 0 1710028800000 ! (31 + j)) = 3
      \<and> getDate 0 (dateRange 0 1710028800000 ! (31 + j)) = int j + 1" if "j < 15" for j
    using that by blast
  from d have dec: "getFullYear 3600000 (dateRange 3600000 1703980800000 ! (31 + j)) = 2024
      \<and> getMonth 3600000 (dateRange 3600000 1703980800000 ! (31 + j)) = 0
      \<and> getDate 3600000 (dateRange 3600000 1703980800000 ! (31 + j)) = int j + 1" if "j < 15" for j
    using that by blast
  from cur [of 30] have "getDate 0 (dateRange 0 1710028800000 ! 30) = 31" by simp
  moreover from nxt [of 0] have "getMonth 0 (dateRange 0 1710028800000 ! 31) = 3" by simp
  moreover from nxt [of 14] have "getDate 0 (dateRange 0 1710028800000 ! 45) = 15" by simp
  moreover from dec [of 0] have "getFullYear 3600000 (dateRange 3600000 1703980800000 ! 31) = 2024"
    "getMonth 3600000 (dateRange 3600000 1703980800000 ! 31) = 0"
    "getDate 3600000 (dateRange 3600000 1703980800000 ! 31) = 1" by simp_all
  moreover note len
  ultimately show ?thesis by simp
qed


section \<open>The claims about the completion toggle\<close>

text \<open>
  C4, as amended. The claim has the failure of the save reported to the caller. The
  handler catches what \<^verbatim>\<open>saveTasks\<close> throws: its promise resolves all the same, and
  nothing is returned or thrown to the caller, as the counterexample after the theorem
  shows. What holds: when the save fails, the collection in memory is the toggled one
  (the flag of the task stays flipped, nothing is rolled back), and the failure is
  written to the console and shown in an alert titled Error.
\<close>

theorem toggle_save_failure:
  "tasks (snd (handleToggleTaskCompletion st taskId (SaveThrows e))) =
     map (\<lambda>task. if task_id task = taskId then task\<lparr>completed := \<not> completed task\<rparr> else task)
       (tasks st)
   \<and> (\<forall>i < length (tasks st). task_id (tasks st ! i) = taskId \<longrightarrow>
         completed (tasks (snd (handleToggleTaskCompletion st taskId (SaveThrows e))) ! i)
           = (\<not> completed (tasks st ! i)))
   \<and> fst (handleToggleTaskCompletion st taskId (SaveThrows e)) = Resolved
   \<and> alerts (snd (handleToggleTaskCompletion st taskId (SaveThrows e))) =
       alerts st @ [(''Error'', ''Failed to update task status'')]
   \<and> consoleErrors (snd (handleToggleTaskCompletion st taskId (SaveThrows e))) =
       consoleErrors st @ [(''Error updating task:'', e)]"
  by (simp add: handleToggleTaskCompletion_def Let_def)

theorem toggle_save_failure_not_returned:
  "fst (handleToggleTaskCompletion exampleState ''1'' (SaveThrows ''write failed'')) = Resolved
   \<and> fst (handleToggleTaskCompletion exampleState ''1'' (SaveThrows ''write failed''))
       \<noteq> Rejected ''write failed''"
  by (simp add: handleToggleTaskCompletion_def Let_def)

theorem toggle_save_failure_witness:
  "map completed (tasks (snd (handleToggleTaskCompletion exampleState ''1'' (SaveThrows ''write failed''))))
     = [True, False, False]
   \<and> alerts (snd (handleToggleTaskCompletion exampleState ''1'' (SaveThrows ''write failed'')))
     = [(''Error'', ''Failed to update task status'')]"
proof -
  note t = toggle_save_failure [of exampleState "''1''" "''write failed''"]
  from t have "tasks (snd (handleToggleTaskCompletion exampleState ''1'' (SaveThrows ''write failed''))) =
     map (\<lambda>task. if task_id task = ''1'' then task\<lparr>completed := \<not> completed task\<rparr> else task)
       (tasks exampleState)" by blast
  moreover from t have "alerts (snd (handleToggleTaskCompletion exampleState ''1'' (SaveThrows ''write failed''))) =
       alerts exampleState @ [(''Error'', ''Failed to update task status'')]" by blast
  ultimately show ?thesis
    by (simp add: exampleState_def scenarioA_def exampleTask_def)
qed

text \<open>
  C7. A toggle with an id that no task of the collection has leaves the collection as
  it is, and the handler completes: its promise resolves, and when the save succeeds
  there is no alert and no console error, only the (unchanged) collection written to
  the store.
\<close>

theorem toggle_absent_id:
  assumes "taskId \<notin> task_id ` set (tasks st)"
  shows "tasks (snd (handleToggleTaskCompletion st taskId save)) = tasks st
    \<and> fst (handleToggleTaskCompletion st taskId save) = Resolved
    \<and> (save = SaveOk \<longrightarrow>
         handleToggleTaskCompletion st taskId save = (Resolved, st\<lparr>stored := tasks st\<rparr>))"
proof -
  have same: "map (\<lambda>task. if task_id task = taskId then task\<lparr>completed := \<not> completed task\<rparr> else task)
       (tasks st) = tasks st"
    using assms by (intro map_idI) auto
  show ?thesis
    by (cases save) (simp_all add: handleToggleTaskCompletion_def Let_def same)
qed

theorem toggle_absent_id_witness:
  "handleToggleTaskCompletion exampleState ''42'' SaveOk = (Resolved, exampleState)"
proof -
  have "''42'' \<notin> task_id ` set (tasks exampleState)"
    by (simp add: exampleState_def scenarioA_def exampleTask_def)
  from toggle_absent_id [OF this, of SaveOk]
  have "handleToggleTaskCompletion exampleState ''42'' SaveOk
      = (Resolved, exampleState\<lparr>stored := tasks exampleState\<rparr>)" by simp
  then show ?thesis by (simp add: exampleState_def)
qed

text \<open>
  C10. A toggle keeps the length and the order of the collection. At every position
  the id, title, description, creation date, due date, priority and category of the
  task are what they were; a task with the given id has its completed flag negated, and
  a task with another id is unchanged as a whole.
\<close>

theorem toggle_frame:
  "length (tasks (snd (handleToggleTaskCompletion st taskId save))) = length (tasks st)
   \<and> (\<forall>i < length (tasks st).
        task_id (tasks (snd (handleToggleTaskCompletion st taskId save)) ! i) = task_id (tasks st ! i)
      \<and> title (tasks (snd (handleToggleTaskCompletion st taskId save)) ! i) = title (tasks st ! i)
      \<and> description (tasks (snd (handleToggleTaskCompletion st taskId save)) ! i) = description (tasks st ! i)
      \<and> createdAt (tasks (snd (handleToggleTaskCompletion st taskId save)) ! i) = createdAt (tasks st ! i)
      \<and> dueDate (tasks (snd (handleToggleTaskCompletion st taskId save)) ! i) = dueDate (tasks st ! i)
      \<and> priority (tasks (snd (handleToggleTaskCompletion st taskId save)) ! i) = priority (tasks st ! i)
      \<and> category (tasks (snd (handleToggleTaskCompletion st taskId save)) ! i) = category (tasks st ! i)
      \<and> (task_id (tasks st ! i) = taskId \<longrightarrow>
           completed (tasks (snd (handleToggleTaskCompletion st taskId save)) ! i)
             = (\<not> completed (tasks st ! i)))
      \<and> (task_id (tasks st ! i) \<noteq> taskId \<longrightarrow>
           tasks (snd (handleToggleTaskCompletion st taskId save)) ! i = tasks st ! i))"
  by (simp add: toggle_tasks)

theorem toggle_frame_witness:
  "length (tasks (snd (handleToggleTaskCompletion exampleState ''2'' SaveOk))) = 3
   \<and> task_id (tasks (snd (handleToggleTaskCompletion exampleState ''2'' SaveOk)) ! 1) = ''2''
   \<and> completed (tasks (snd (handleToggleTaskCompletion exampleState ''2'' SaveOk)) ! 1)
   \<and> tasks (snd (handleToggleTaskCompletion exampleState ''2'' SaveOk)) ! 0 = tasks exampleState ! 0
   \<and> tasks (snd (handleToggleTaskCompletion exampleState ''2'' SaveOk)) ! 2 = tasks exampleState ! 2"
proof -
  let ?ts = "tasks (snd (handleToggleTaskCompletion exampleState ''2'' SaveOk))"
  note f = toggle_frame [of exampleState "''2''" SaveOk]
  have len: "length (tasks exampleState) = 3"
    by (simp add: exampleState_def scenarioA_def)
  have ex: "tasks exampleState = scenarioA" by (simp add: exampleState_def)
  from f len have l: "length ?ts = 3" by simp
  from f have at: "task_id (?ts ! i) = task_id (tasks exampleState ! i)
      \<and> (task_id (tasks exampleState ! i) = ''2'' \<longrightarrow> completed (?ts ! i) = (\<not> completed (tasks exampleState ! i)))
      \<and> (task_id (tasks exampleState ! i) \<noteq> ''2'' \<longrightarrow> ?ts ! i = tasks exampleState ! i)"
    if "i < 3" for i
    using that len by auto
  from at [of 1] have "task_id (?ts ! 1) = ''2''" "completed (?ts ! 1)"
    by (simp_all add: ex scenarioA_def exampleTask_def)
  moreover from at [of 0] have "?ts ! 0 = tasks exampleState ! 0"
    by (simp add: ex scenarioA_def exampleTask_def)
  moreover from at [of 2] have "?ts ! 2 = tasks exampleState ! 2"
    by (simp add: ex scenarioA_def exampleTask_def)
  ultimately show ?thesis using l by simp
qed


end
